theory Spec2Isabelle
  imports Main
begin

section \<open>The codesigning wrapper: tools/codesigningtool/codesigningtool.py\<close>

text \<open>
  The tool finds a code-signing identity that matches a provisioning profile and replaces
  itself by the signing binary. It talks to three external utilities (\<open>security cms\<close>,
  \<open>openssl x509\<close>, \<open>security find-identity\<close>); the model takes their behaviour as a
  parameter (the \<open>world\<close>) and records every process it starts and every line it prints.
\<close>

subsection \<open>Data\<close>

text \<open>
  Python \<open>bytes\<close> are lists of \<open>char\<close> (a \<open>char\<close> is one byte). A Python \<open>str\<close> is
  represented by its UTF-8 encoding: decoding checks that the bytes are well-formed UTF-8 and
  keeps them. All patterns the program searches for are ASCII, and an ASCII byte never occurs
  inside a multi-byte UTF-8 sequence, so searching and replacing on the encoding agrees with
  searching and replacing on code points.
\<close>

type_synonym bytes = string
type_synonym str = string

datatype error =
    OSError
  | CalledProcessError int
  | UnicodeDecodeError
  | TypeError
  | KeyError string
  | InvalidFileException

text \<open>What starting a process and waiting for it gives: it could not be started, or it
  exited with a status after writing to its standard output.\<close>

datatype proc = NotStarted | Exited int bytes

text \<open>The decoded profile: only the values that are arrays of data blobs are represented.\<close>

type_synonym mpf = "string \<rightharpoonup> bytes list"

record world =
  run :: "string list \<Rightarrow> bytes option \<Rightarrow> proc"
  readPlist :: "bytes \<Rightarrow> error + mpf"
  environ :: "(string \<times> string) list"

datatype stream = Stdout | Stderr

datatype event = Popen "string list" | Write stream string

text \<open>The attributes of the namespace that \<open>parse_known_args\<close> returns; an option that was
  not given is \<open>None\<close>.\<close>

record namespace =
  mobileprovision :: "string option"
  codesign :: "string option"
  identity :: "string option"

text \<open>How the process ends: \<open>os.execve\<close> is called, \<open>sys.exit\<close> is called with the value
  \<open>main\<close> returned, or an exception reaches the top level.\<close>

datatype outcome =
    Execve string "string list" "(string \<times> string) list"
  | Exit int
  | Raised error

subsection \<open>Library functions on bytes and strings\<close>

text \<open>\<open>bytes.strip()\<close> removes ASCII whitespace at both ends.\<close>

definition is_space :: "char \<Rightarrow> bool" where
  "is_space c \<longleftrightarrow> c \<in> set [CHR 0x20, CHR 0x09, CHR 0x0A, CHR 0x0D, CHR 0x0B, CHR 0x0C]"

definition strip :: "bytes \<Rightarrow> bytes" where
  "strip s = rev (dropWhile is_space (rev (dropWhile is_space s)))"

text \<open>\<open>bytes.decode("utf-8")\<close>: the well-formed byte sequences of the Unicode standard
  (no overlong forms, no surrogates, nothing above U+10FFFF).\<close>

definition cont :: "nat \<Rightarrow> bool" where
  "cont b \<longleftrightarrow> 128 \<le> b \<and> b \<le> 191"

fun utf8_wellformed :: "nat list \<Rightarrow> bool" where
  "utf8_wellformed [] = True"
| "utf8_wellformed (b # bs) =
     (if b < 128 then utf8_wellformed bs
      else if 194 \<le> b \<and> b \<le> 223 then
        (case bs of c1 # r \<Rightarrow> cont c1 \<and> utf8_wellformed r | _ \<Rightarrow> False)
      else if 224 \<le> b \<and> b \<le> 239 then
        (case bs of
           c1 # c2 # r \<Rightarrow>
             (if b = 224 then 160 \<le> c1 \<and> c1 \<le> 191
              else if b = 237 then 128 \<le> c1 \<and> c1 \<le> 159
              else cont c1) \<and> cont c2 \<and> utf8_wellformed r
         | _ \<Rightarrow> False)
      else if 240 \<le> b \<and> b \<le> 244 then
        (case bs of
           c1 # c2 # c3 # r \<Rightarrow>
             (if b = 240 then 144 \<le> c1 \<and> c1 \<le> 191
              else if b = 244 then 128 \<le> c1 \<and> c1 \<le> 143
              else cont c1) \<and> cont c2 \<and> cont c3 \<and> utf8_wellformed r
         | _ \<Rightarrow> False)
      else False)"

definition decode_utf8 :: "bytes \<Rightarrow> error + str" where
  "decode_utf8 bs =
     (if utf8_wellformed (map of_char bs) then Inr bs else Inl UnicodeDecodeError)"

text \<open>\<open>str.replace(old, new)\<close>: every occurrence of \<open>old\<close>, found from the left and not
  overlapping; an empty \<open>old\<close> matches before every character and at the end.\<close>

function replace :: "str \<Rightarrow> str \<Rightarrow> str \<Rightarrow> str" where
  "replace s old new =
     (if old = [] then new @ concat (map (\<lambda>c. c # new) s)
      else if s = [] then []
      else if take (length old) s = old then new @ replace (drop (length old) s) old new
      else hd s # replace (tl s) old new)"
  by pat_completeness auto
termination
  by (relation "measure (\<lambda>(s, old, new). length s)") auto

declare replace.simps [simp del]

text \<open>\<open>str.splitlines()\<close>: the line boundaries are \<open>\r\n\<close>, \<open>\n\<close>, \<open>\r\<close>, \<open>\v\<close>, \<open>\f\<close>,
  \<open>\x1c\<close>, \<open>\x1d\<close>, \<open>\x1e\<close>, \<open>\x85\<close>, U+2028 and U+2029 (the last three in their
  UTF-8 encoding); the boundaries are not kept, and no empty line follows a final boundary.\<close>

definition boundaries :: "str list" where
  "boundaries =
     [[CHR 0x0D, CHR 0x0A], [CHR 0x0A], [CHR 0x0D], [CHR 0x0B], [CHR 0x0C],
      [CHR 0x1C], [CHR 0x1D], [CHR 0x1E], [CHR 0xC2, CHR 0x85],
      [CHR 0xE2, CHR 0x80, CHR 0xA8], [CHR 0xE2, CHR 0x80, CHR 0xA9]]"

definition line_boundary :: "str \<Rightarrow> nat" where
  "line_boundary s =
     (case filter (\<lambda>b. take (length b) s = b) boundaries of [] \<Rightarrow> 0 | b # _ \<Rightarrow> length b)"

function splitlines_from :: "str \<Rightarrow> str \<Rightarrow> str list" where
  "splitlines_from cur s =
     (if s = [] then (if cur = [] then [] else [cur])
      else if 0 < line_boundary s then cur # splitlines_from [] (drop (line_boundary s) s)
      else splitlines_from (cur @ [hd s]) (tl s))"
  by pat_completeness auto
termination
  by (relation "measure (\<lambda>(cur, s). length s)") auto

declare splitlines_from.simps [simp del]

definition splitlines :: "str \<Rightarrow> str list" where
  "splitlines s = splitlines_from [] s"

text \<open>\<open>re.search(r"([A-F0-9]{40})", line)\<close>: the leftmost position at which forty
  consecutive characters of the class stand; \<open>m.group(0)\<close> is those forty characters.\<close>

definition in_A_F0_9 :: "char \<Rightarrow> bool" where
  "in_A_F0_9 c \<longleftrightarrow> c \<in> set ''ABCDEF0123456789''"

fun re_search :: "str \<Rightarrow> str option" where
  "re_search [] = None"
| "re_search (c # cs) =
     (if 40 \<le> length (c # cs) \<and> list_all in_A_F0_9 (take 40 (c # cs))
      then Some (take 40 (c # cs))
      else re_search cs)"

text \<open>\<open>subprocess.check_output(args)\<close>: the standard output of the process, an
  exception when it cannot be started or exits with a non-zero status.\<close>

definition subprocess_check_output ::
  "world \<Rightarrow> string list \<Rightarrow> event list \<times> (error + bytes)" where
  "subprocess_check_output w args =
     ([Popen args],
      case run w args None of
        NotStarted \<Rightarrow> Inl OSError
      | Exited rc out \<Rightarrow> if rc = 0 then Inr out else Inl (CalledProcessError rc))"

subsection \<open>The program\<close>

text \<open>Every function returns the events it caused together with its result; an exception
  is the \<open>Inl\<close> of the result.\<close>

text \<open>The three command lines of the source.\<close>

definition security_cms :: "string \<Rightarrow> string list" where
  "security_cms mobileprovision_file = [''security'', ''cms'', ''-D'', ''-i'', mobileprovision_file]"

definition openssl_x509 :: "string list" where
  "openssl_x509 = [''openssl'', ''x509'', ''-inform'', ''DER'', ''-noout'', ''-fingerprint'']"

definition security_find_identity :: "string list" where
  "security_find_identity = [''security'', ''find-identity'', ''-v'', ''-p'', ''codesigning'']"

text \<open>\<open>_check_output\<close>: \<open>Popen\<close>, then the first component of \<open>communicate\<close>. The exit
  status is not looked at.\<close>

definition check_output ::
  "world \<Rightarrow> string list \<Rightarrow> bytes option \<Rightarrow> event list \<times> (error + bytes)" where
  "check_output w args inputstr =
     ([Popen args],
      case run w args inputstr of
        NotStarted \<Rightarrow> Inl OSError
      | Exited rc out \<Rightarrow> Inr out)"

text \<open>\<open>_parse_mobileprovision_file\<close>. The path is \<open>None\<close> when \<open>--mobileprovision\<close> was not
  given; \<open>Popen\<close> then raises \<open>TypeError\<close> while converting its arguments, before any process
  exists. The plist parser of the standard library is the parameter \<open>readPlist\<close>.\<close>

definition parse_mobileprovision_file ::
  "world \<Rightarrow> string option \<Rightarrow> event list \<times> (error + mpf)" where
  "parse_mobileprovision_file w mobileprovision_file =
     (case mobileprovision_file of
        None \<Rightarrow> ([], Inl TypeError)
      | Some path \<Rightarrow>
          (case subprocess_check_output w (security_cms path) of
             (evs, Inl e) \<Rightarrow> (evs, Inl e)
           | (evs, Inr plist_xml) \<Rightarrow> (evs, readPlist w plist_xml)))"

text \<open>\<open>_certificate_fingerprint\<close>.\<close>

definition certificate_fingerprint :: "world \<Rightarrow> bytes \<Rightarrow> event list \<times> (error + str)" where
  "certificate_fingerprint w ident =
     (case check_output w openssl_x509 (Some ident) of
        (evs, Inl e) \<Rightarrow> (evs, Inl e)
      | (evs, Inr out) \<Rightarrow>
          (case decode_utf8 (strip out) of
             Inl e \<Rightarrow> (evs, Inl e)
           | Inr fingerprint \<Rightarrow>
               (evs, Inr (replace (replace fingerprint ''SHA1 Fingerprint='' '''') '':'' ''''))))"

text \<open>\<open>_get_identities_from_provisioning_profile\<close> is a generator. Its body starts to run
  at the first request for an item: the lookup of the key then raises \<open>KeyError\<close> if the key
  is missing. Each item is computed when it is requested, so the model returns the list of
  the suspended items, each with the events that computing it causes; the consumer takes the
  events of the items it requests and of no other.\<close>

definition get_identities_from_provisioning_profile ::
  "world \<Rightarrow> mpf \<Rightarrow> error + (event list \<times> (error + str)) list" where
  "get_identities_from_provisioning_profile w m =
     (case m ''DeveloperCertificates'' of
        None \<Rightarrow> Inl (KeyError ''DeveloperCertificates'')
      | Some certs \<Rightarrow> Inr (map (\<lambda>ident. certificate_fingerprint w ident) certs))"

text \<open>The loop of \<open>_find_codesign_identities\<close> over the lines of the listing.\<close>

fun for_line :: "str list \<Rightarrow> str list \<Rightarrow> str list" where
  "for_line ids [] = ids"
| "for_line ids (line # lines) =
     (case re_search line of
        None \<Rightarrow> for_line ids lines
      | Some m \<Rightarrow> for_line (ids @ [m]) lines)"

definition find_codesign_identities :: "world \<Rightarrow> event list \<times> (error + str list)" where
  "find_codesign_identities w =
     (case check_output w security_find_identity None of
        (evs, Inl e) \<Rightarrow> (evs, Inl e)
      | (evs, Inr out) \<Rightarrow>
          (case decode_utf8 (strip out) of
             Inl e \<Rightarrow> (evs, Inl e)
           | Inr output \<Rightarrow> (evs, Inr (for_line [] (splitlines output)))))"

text \<open>The loop of \<open>_find_codesign_identity\<close> over the generator; falling off the end of
  the function returns \<open>None\<close>.\<close>

fun for_id_mpf ::
  "str set \<Rightarrow> (event list \<times> (error + str)) list \<Rightarrow> event list \<times> (error + str option)" where
  "for_id_mpf ids_codesign [] = ([], Inr None)"
| "for_id_mpf ids_codesign ((evs, item) # rest) =
     (case item of
        Inl e \<Rightarrow> (evs, Inl e)
      | Inr id_mpf \<Rightarrow>
          if id_mpf \<in> ids_codesign then (evs, Inr (Some id_mpf))
          else (case for_id_mpf ids_codesign rest of (evs', r) \<Rightarrow> (evs @ evs', r)))"

definition find_codesign_identity ::
  "world \<Rightarrow> string option \<Rightarrow> event list \<times> (error + str option)" where
  "find_codesign_identity w mobileprovision_file =
     (case parse_mobileprovision_file w mobileprovision_file of
        (e1, Inl e) \<Rightarrow> (e1, Inl e)
      | (e1, Inr m) \<Rightarrow>
          (case find_codesign_identities w of
             (e2, Inl e) \<Rightarrow> (e1 @ e2, Inl e)
           | (e2, Inr ids) \<Rightarrow>
               (case get_identities_from_provisioning_profile w m of
                  Inl e \<Rightarrow> (e1 @ e2, Inl e)
                | Inr gen \<Rightarrow>
                    (case for_id_mpf (set ids) gen of (e3, r) \<Rightarrow> (e1 @ e2 @ e3, r)))))"

text \<open>\<open>"... %s" % args.mobileprovision\<close> formats \<open>None\<close> as the text \<open>None\<close>.\<close>

definition percent_s :: "string option \<Rightarrow> string" where
  "percent_s v = (case v of None \<Rightarrow> ''None'' | Some s \<Rightarrow> s)"

text \<open>\<open>main\<close>, from the result of \<open>parser.parse_known_args()\<close> on: the namespace \<open>args\<close>
  and the list \<open>codesign_args\<close> of the arguments the parser did not recognise. \<open>print\<close>
  writes its line to the standard output. \<open>os.execve\<close> raises \<open>TypeError\<close> for a path that
  is \<open>None\<close>.\<close>

definition main :: "world \<Rightarrow> namespace \<Rightarrow> string list \<Rightarrow> event list \<times> outcome" where
  "main w args codesign_args =
     (case (case identity args of
              None \<Rightarrow> find_codesign_identity w (mobileprovision args)
            | Some i \<Rightarrow> ([], Inr (Some i))) of
        (evs, Inl e) \<Rightarrow> (evs, Raised e)
      | (evs, Inr None) \<Rightarrow>
          (evs @ [Write Stdout
                    (''Unable to find identity on the system matching the ones in '' @
                     percent_s (mobileprovision args) @ [CHR 0x0A])],
           Exit 1)
      | (evs, Inr (Some ident)) \<Rightarrow>
          (case codesign args of
             None \<Rightarrow> (evs, Raised TypeError)
           | Some path \<Rightarrow>
               (evs, Execve path ([path, ''-v'', ''--sign'', ident] @ codesign_args) (environ w))))"

subsection \<open>Notions used to state the properties\<close>

text \<open>The maximal runs of characters of the class \<open>[A-F0-9]\<close> in a line, from left to
  right.\<close>

function hex_runs :: "str \<Rightarrow> str list" where
  "hex_runs s =
     (case dropWhile (\<lambda>c. \<not> in_A_F0_9 c) s of
        [] \<Rightarrow> []
      | c # cs \<Rightarrow> takeWhile in_A_F0_9 (c # cs) # hex_runs (dropWhile in_A_F0_9 cs))"
  by pat_completeness auto
termination
proof (relation "measure length", simp)
  fix s :: str and c cs
  assume "dropWhile (\<lambda>c. \<not> in_A_F0_9 c) s = c # cs"
  then have "Suc (length cs) \<le> length s"
    by (metis length_Cons length_dropWhile_le)
  moreover have "length (dropWhile in_A_F0_9 cs) \<le> length cs"
    by (rule length_dropWhile_le)
  ultimately show "(dropWhile in_A_F0_9 cs, s) \<in> measure length"
    by simp
qed

declare hex_runs.simps [simp del]

text \<open>The raw line of the fingerprinting utility: groups of digits joined by colons.\<close>

fun join_colon :: "str list \<Rightarrow> str" where
  "join_colon [] = []"
| "join_colon [p] = p"
| "join_colon (p # q # ps) = p @ '':'' @ join_colon (q # ps)"

definition is_hexdigit :: "char \<Rightarrow> bool" where
  "is_hexdigit c \<longleftrightarrow> c \<in> set ''0123456789ABCDEFabcdef''"

text \<open>An event that starts one of the three utilities with the command line of the source.\<close>

definition is_utility_call :: "event \<Rightarrow> bool" where
  "is_utility_call e =
     (case e of
        Popen args \<Rightarrow>
          args = openssl_x509 \<or> args = security_find_identity \<or>
          (length args = 5 \<and> args = security_cms (last args))
      | Write s t \<Rightarrow> False)"

subsection \<open>A small host, for worked examples\<close>

text \<open>Three certificates with their fingerprints, a blob that is not a certificate, and a
  host whose utilities answer as the real ones do: \<open>openssl\<close> prints the fingerprint line of
  a certificate and fails without output on anything else, \<open>security cms\<close> decodes the one
  profile \<open>app.mobileprovision\<close>. The certificates of the profile and the output of the
  identity listing are the parameters.\<close>

definition fpX :: str where "fpX = ''A1B2C3D4E5F60718293A4B5C6D7E8F9012345678''"
definition fpY :: str where "fpY = ''0F1E2D3C4B5A69788796A5B4C3D2E1F001234567''"
definition fpZ :: str where "fpZ = ''00112233445566778899AABBCCDDEEFF00112233''"

definition sample_openssl :: "bytes option \<Rightarrow> proc" where
  "sample_openssl inp =
     (if inp = Some ''certX'' then
        Exited 0 (''SHA1 Fingerprint=A1:B2:C3:D4:E5:F6:07:18:29:3A:4B:5C:6D:7E:8F:90:12:34:56:78'' @ [CHR 0x0A])
      else if inp = Some ''certY'' then
        Exited 0 (''SHA1 Fingerprint=0F:1E:2D:3C:4B:5A:69:78:87:96:A5:B4:C3:D2:E1:F0:01:23:45:67'' @ [CHR 0x0A])
      else if inp = Some ''certZ'' then
        Exited 0 (''SHA1 Fingerprint=00:11:22:33:44:55:66:77:88:99:AA:BB:CC:DD:EE:FF:00:11:22:33'' @ [CHR 0x0A])
      else Exited 1 [])"

definition sample_profile :: "bytes list \<Rightarrow> mpf" where
  "sample_profile certs = [''DeveloperCertificates'' \<mapsto> certs]"

definition sample_world :: "bytes list \<Rightarrow> bytes \<Rightarrow> world" where
  "sample_world certs listing =
     \<lparr> run = (\<lambda>args inp.
          if args = openssl_x509 then sample_openssl inp
          else if args = security_find_identity then Exited 0 listing
          else if args = security_cms ''app.mobileprovision'' then Exited 0 ''<plist/>''
          else NotStarted),
       readPlist = (\<lambda>xml. if xml = ''<plist/>'' then Inr (sample_profile certs)
                          else Inl InvalidFileException),
       environ = [(''PATH'', ''/usr/bin'')] \<rparr>"

definition listing_XY :: bytes where
  "listing_XY =
     ''  1) A1B2C3D4E5F60718293A4B5C6D7E8F9012345678 iPhone Developer: X'' @ [CHR 0x0A] @
     ''  2) 0F1E2D3C4B5A69788796A5B4C3D2E1F001234567 iPhone Developer: Y'' @ [CHR 0x0A] @
     ''     2 valid identities found'' @ [CHR 0x0A]"

definition listing_YX :: bytes where
  "listing_YX =
     ''  1) 0F1E2D3C4B5A69788796A5B4C3D2E1F001234567 iPhone Developer: Y'' @ [CHR 0x0A] @
     ''  2) A1B2C3D4E5F60718293A4B5C6D7E8F9012345678 iPhone Developer: X'' @ [CHR 0x0A] @
     ''     2 valid identities found'' @ [CHR 0x0A]"

definition listing_Y :: bytes where
  "listing_Y =
     ''  1) 0F1E2D3C4B5A69788796A5B4C3D2E1F001234567 iPhone Developer: Y'' @ [CHR 0x0A] @
     ''  2) 0f1e2d3c4b5a69788796a5b4c3d2e1f001234567 lower case'' @ [CHR 0x0A] @
     ''     2 valid identities found'' @ [CHR 0x0A]"

definition listing_none :: bytes where
  "listing_none = ''     0 valid identities found'' @ [CHR 0x0A]"

definition sample_args :: namespace where
  "sample_args =
     \<lparr> mobileprovision = Some ''app.mobileprovision'',
       codesign = Some ''/usr/bin/codesign'',
       identity = None \<rparr>"

definition listing_Y_bare :: bytes where
  "listing_Y_bare = ''0F1E2D3C4B5A69788796A5B4C3D2E1F001234567''"

text \<open>The same host without the fingerprinting utility.\<close>

definition without_openssl :: "world \<Rightarrow> world" where
  "without_openssl w =
     w\<lparr>run := (\<lambda>args inp. if args = openssl_x509 then NotStarted else run w args inp)\<rparr>"

definition line_41_40 :: str where
  "line_41_40 =
     ''AAAAAAAAAAAAAAAAAAAAAAAAAAAAAAAAAAAAAAAAA BBBBBBBBBBBBBBBBBBBBBBBBBBBBBBBBBBBBBBBB''"

definition pairs_X :: "str list" where
  "pairs_X = [''A1'', ''B2'', ''C3'', ''D4'', ''E5'', ''F6'', ''07'', ''18'', ''29'', ''3A'',
              ''4B'', ''5C'', ''6D'', ''7E'', ''8F'', ''90'', ''12'', ''34'', ''56'', ''78'']"

section \<open>Properties\<close>

subsection \<open>The line scan of the identity listing\<close>

lemma re_search_Some: "re_search s = Some m \<Longrightarrow> length m = 40 \<and> list_all in_A_F0_9 m"
  by (induction s) (auto split: if_splits)

lemma for_line_subset:
  "set (for_line ids ls) \<subseteq> set ids \<union> {m. \<exists>l. re_search l = Some m}"
proof (induction ls arbitrary: ids)
  case Nil
  then show ?case by simp
next
  case (Cons l ls)
  show ?case
  proof (cases "re_search l")
    case None
    then show ?thesis using Cons[of ids] by simp
  next
    case (Some m)
    then show ?thesis using Cons[of "ids @ [m]"] by auto
  qed
qed

lemma for_line_all:
  assumes "\<forall>i\<in>set ids. Q i" "\<And>l m. re_search l = Some m \<Longrightarrow> Q m"
  shows "\<forall>i\<in>set (for_line ids ls). Q i"
  using assms for_line_subset[of ids ls] by blast

lemma in_A_F0_9_not_lower: "in_A_F0_9 c \<Longrightarrow> c \<notin> set ''abcdef''"
  by (auto simp: in_A_F0_9_def)

lemma find_codesign_identities_result:
  "snd (find_codesign_identities w) = Inr ids \<Longrightarrow>
   \<exists>out. ids = for_line [] (splitlines out)"
  by (auto simp: find_codesign_identities_def check_output_def split: proc.splits sum.splits)

lemma re_search_skip: "\<not> in_A_F0_9 c \<Longrightarrow> re_search (c # cs) = re_search cs"
  by simp

lemma re_search_dropWhile: "re_search (dropWhile (\<lambda>c. \<not> in_A_F0_9 c) s) = re_search s"
  by (induction s) auto

lemma re_search_short_run:
  assumes "list_all in_A_F0_9 r" "length r < 40" "rest = [] \<or> \<not> in_A_F0_9 (hd rest)"
  shows "re_search (r @ rest) = re_search rest"
  using assms
proof (induction r)
  case Nil
  then show ?case by simp
next
  case (Cons x r)
  have "\<not> (40 \<le> length (x # r @ rest) \<and> list_all in_A_F0_9 (take 40 (x # r @ rest)))"
  proof (cases rest)
    case Nil
    with Cons.prems show ?thesis by simp
  next
    case (Cons y ys)
    with Cons.prems(3) have ny: "\<not> in_A_F0_9 y" by simp
    have "y \<in> set (take 40 (x # r @ rest))"
    proof -
      have "(x # r @ rest) ! (length (x # r)) = y" using Cons 
        by (metis append_Cons nth_append_length)
      moreover have "length (x # r) < 40" using Cons.prems(2) by simp
      moreover have "length (x # r) < length (x # r @ rest)" using Cons by simp
      ultimately show ?thesis
        by (metis (no_types, lifting) in_set_conv_nth length_take min_less_iff_conj nth_take)
    qed
    with ny show ?thesis by (auto simp: list_all_iff)
  qed
  then have "re_search (x # r @ rest) = re_search (r @ rest)"
    unfolding re_search.simps by (rule if_not_P)
  then have "re_search ((x # r) @ rest) = re_search (r @ rest)" by (simp only: append_Cons)
  also have "\<dots> = re_search rest" using Cons by simp
  finally show ?case .
qed

lemma re_search_long_run:
  assumes "list_all in_A_F0_9 r" "40 \<le> length r"
  shows "re_search (r @ rest) = Some (take 40 r)"
proof (cases r)
  case Nil
  with assms show ?thesis by simp
next
  case (Cons x xs)
  have "list_all in_A_F0_9 (take 40 r)" using assms(1) 
    by (auto simp: list_all_iff dest: in_set_takeD)
  with assms(2) Cons show ?thesis by auto
qed

text \<open>
  Claim C10. Every string that \<open>_find_codesign_identities\<close> returns is exactly 40
  characters long and consists of the characters \<open>A\<close> to \<open>F\<close> and \<open>0\<close> to \<open>9\<close> only;
  in particular it contains no lower-case hexadecimal digit, so a fingerprint that the
  listing utility prints in lower case is never returned.
\<close>

theorem find_codesign_identities_upper_hex_40:
  assumes "snd (find_codesign_identities w) = Inr ids"
  shows "\<forall>i\<in>set ids. length i = 40 \<and> list_all in_A_F0_9 i \<and> set i \<inter> set ''abcdef'' = {}"
proof -
  from assms obtain out where ids: "ids = for_line [] (splitlines out)"
    using find_codesign_identities_result by blast
  have "\<forall>i\<in>set (for_line [] (splitlines out)).
          length i = 40 \<and> list_all in_A_F0_9 i \<and> set i \<inter> set ''abcdef'' = {}"
  proof (rule for_line_all)
    show "\<forall>i\<in>set []. length i = 40 \<and> list_all in_A_F0_9 i \<and> set i \<inter> set ''abcdef'' = {}"
      by simp
  next
    fix l m assume "re_search l = Some m"
    then have m: "length m = 40" "list_all in_A_F0_9 m"
      using re_search_Some by blast+
    have "set m \<inter> set ''abcdef'' = {}"
      using m(2) in_A_F0_9_not_lower unfolding list_all_iff by blast
    with m show "length m = 40 \<and> list_all in_A_F0_9 m \<and> set m \<inter> set ''abcdef'' = {}"
      by simp
  qed
  with ids show ?thesis by simp
qed

theorem find_codesign_identities_upper_hex_40_witness:
  "snd (find_codesign_identities (sample_world [] listing_Y)) = Inr [fpY] \<and>
   length fpY = 40 \<and> list_all in_A_F0_9 fpY \<and> set fpY \<inter> set ''abcdef'' = {}"
proof -
  have h: "snd (find_codesign_identities (sample_world [] listing_Y)) = Inr [fpY]"
    by code_simp
  from find_codesign_identities_upper_hex_40 [OF h] show ?thesis
    using h by simp
qed

text \<open>
  Claim C5, as stated: a line with exactly one 40-character hex run yields that run, a line
  with none yields nothing, and runs shorter or longer than 40 characters are not matched.
  The pattern has no anchor, so a run of more than 40 characters is matched by its first 40
  characters. The line below consists of a run of 41 characters, a blank and a run of 40
  characters: its only 40-character run is the second one, and the scan yields the first 40
  characters of the 41-character run.
\<close>

theorem re_search_longer_run_counterexample:
  "hex_runs line_41_40 =
     [''AAAAAAAAAAAAAAAAAAAAAAAAAAAAAAAAAAAAAAAAA'', ''BBBBBBBBBBBBBBBBBBBBBBBBBBBBBBBBBBBBBBBB''] \<and>
   map length (hex_runs line_41_40) = [41, 40] \<and>
   re_search line_41_40 = Some ''AAAAAAAAAAAAAAAAAAAAAAAAAAAAAAAAAAAAAAAA'' \<and>
   re_search line_41_40 \<noteq> Some ''BBBBBBBBBBBBBBBBBBBBBBBBBBBBBBBBBBBBBBBB''"
  by code_simp

text \<open>
  Claim C5, amended: the scan of a line yields the first 40 characters of the leftmost
  maximal run of characters of \<open>[A-F0-9]\<close> that is at least 40 characters long, and
  nothing when the line has no such run. So a line whose only run of 40 or more characters
  has exactly 40 yields that run, runs shorter than 40 are not matched, lower-case digits
  never belong to a run, and a run longer than 40 is matched by its first 40 characters.
\<close>

theorem re_search_leftmost_long_run: "re_search line =
   (case filter (\<lambda>r. 40 \<le> length r) (hex_runs line) of [] \<Rightarrow> None | r # _ \<Rightarrow> Some (take 40 r))"
proof (induction line rule: hex_runs.induct)
  case (1 s)
  show ?case
  proof (cases "dropWhile (\<lambda>c. \<not> in_A_F0_9 c) s")
    case Nil
    then have "re_search s = None" by (metis re_search.simps(1) re_search_dropWhile)
    moreover have "hex_runs s = []"
      by (subst hex_runs.simps) (simp only: Nil list.case)
    ultimately show ?thesis by simp
  next
    case (Cons c cs)
    then have pc: "in_A_F0_9 c" using hd_dropWhile[of "\<lambda>c. \<not> in_A_F0_9 c" s] by force
    define r where "r = takeWhile in_A_F0_9 (c # cs)"
    define rest where "rest = dropWhile in_A_F0_9 cs"
    have split: "c # cs = r @ rest" using pc by (simp add: r_def rest_def)
    have allr: "list_all in_A_F0_9 r" unfolding r_def list_all_iff by (meson set_takeWhileD)
    have rest: "rest = [] \<or> \<not> in_A_F0_9 (hd rest)" unfolding rest_def
      using hd_dropWhile[of in_A_F0_9 cs] by blast
    have hr: "hex_runs s = r # hex_runs rest"
      using Cons by (simp add: hex_runs.simps[of s] r_def rest_def)
    have IH: "re_search rest =
      (case filter (\<lambda>r. 40 \<le> length r) (hex_runs rest) of [] \<Rightarrow> None | r # _ \<Rightarrow> Some (take 40 r))"
      using "1" Cons unfolding rest_def by simp
    have rs: "re_search s = re_search (r @ rest)"
      using re_search_dropWhile[of s] Cons split by simp
    show ?thesis
    proof (cases "40 \<le> length r")
      case True
      then show ?thesis using rs hr re_search_long_run[OF allr True] by simp
    next
      case False
      then have "re_search (r @ rest) = re_search rest"
        using re_search_short_run[OF allr _ rest] by simp
      with False show ?thesis using rs hr IH by simp
    qed
  qed
qed

subsection \<open>The resolver\<close>

lemma for_id_mpf_find:
  "map snd gen = map Inr fps \<Longrightarrow>
   snd (for_id_mpf H gen) = Inr (List.find (\<lambda>f. f \<in> H) fps)"
proof (induction gen arbitrary: fps)
  case Nil
  then show ?case by simp
next
  case (Cons g gen)
  obtain evs item where g: "g = (evs, item)" by (cases g)
  from Cons.prems obtain f fps' where fps: "fps = f # fps'"
    by (cases fps) auto
  with Cons.prems g have item: "item = Inr f" and rest: "map snd gen = map Inr fps'"
    by auto
  show ?case
  proof (cases "f \<in> H")
    case True
    then show ?thesis by (simp add: g fps item)
  next
    case False
    then show ?thesis
      using Cons.IH[OF rest] by (cases "for_id_mpf H gen") (simp add: g fps item)
  qed
qed

lemma fingerprints_of_generator:
  "list_all2 (\<lambda>c f. snd (certificate_fingerprint w c) = Inr f) certs fps \<Longrightarrow>
   map snd (map (certificate_fingerprint w) certs) = map Inr fps"
  by (induction rule: list_all2_induct) auto

lemma find_codesign_identity_loop:
  assumes "snd (parse_mobileprovision_file w (Some path)) = Inr m"
    and "m ''DeveloperCertificates'' = Some certs"
    and "snd (find_codesign_identities w) = Inr ids"
  shows "snd (find_codesign_identity w (Some path)) =
         snd (for_id_mpf (set ids) (map (certificate_fingerprint w) certs))"
  using assms
  by (auto simp: find_codesign_identity_def get_identities_from_provisioning_profile_def
      split: prod.splits sum.splits)

lemma find_codesign_identity_find:
  assumes "snd (parse_mobileprovision_file w (Some path)) = Inr m"
    and "m ''DeveloperCertificates'' = Some certs"
    and "list_all2 (\<lambda>c f. snd (certificate_fingerprint w c) = Inr f) certs fps"
    and "snd (find_codesign_identities w) = Inr ids"
  shows "snd (find_codesign_identity w (Some path)) = Inr (List.find (\<lambda>f. f \<in> set ids) fps)"
  using find_codesign_identity_loop[OF assms(1,2,4)]
    for_id_mpf_find[OF fingerprints_of_generator[OF assms(3)]]
  by simp

lemma find_hd_filter:
  "List.find P xs = (if filter P xs = [] then None else Some (hd (filter P xs)))"
  by (induction xs) auto

lemma fst_certificate_fingerprint: "fst (certificate_fingerprint w c) = [Popen openssl_x509]"
  by (simp add: certificate_fingerprint_def check_output_def split: proc.splits sum.splits)

lemma fst_find_codesign_identities: "fst (find_codesign_identities w) = [Popen security_find_identity]"
  by (simp add: find_codesign_identities_def check_output_def split: proc.splits sum.splits)

lemma fst_parse_mobileprovision_file:
  "fst (parse_mobileprovision_file w (Some path)) = [Popen (security_cms path)]"
  by (simp add: parse_mobileprovision_file_def subprocess_check_output_def split: proc.splits)

lemma for_id_mpf_events:
  "\<forall>g\<in>set gen. list_all Q (fst g) \<Longrightarrow> list_all Q (fst (for_id_mpf H gen))"
  by (induction H gen rule: for_id_mpf.induct) (auto split: sum.splits prod.splits)

lemma is_utility_call_simps:
  "is_utility_call (Popen openssl_x509)"
  "is_utility_call (Popen security_find_identity)"
  "is_utility_call (Popen (security_cms path))"
  by (simp_all add: is_utility_call_def security_cms_def)

lemma find_codesign_identity_events:
  "list_all is_utility_call (fst (find_codesign_identity w (Some path)))"
proof -
  have p: "list_all is_utility_call (fst (parse_mobileprovision_file w (Some path)))"
    by (simp add: fst_parse_mobileprovision_file is_utility_call_simps)
  have l: "list_all is_utility_call (fst (find_codesign_identities w))"
    by (simp add: fst_find_codesign_identities is_utility_call_simps)
  have g: "list_all is_utility_call (fst (for_id_mpf H (map (certificate_fingerprint w) certs)))"
    for H certs
    by (rule for_id_mpf_events) (simp add: fst_certificate_fingerprint is_utility_call_simps)
  show ?thesis
    using p l g
    by (auto simp: find_codesign_identity_def get_identities_from_provisioning_profile_def
        case_prod_beta split: sum.splits option.splits)
qed

lemma for_id_mpf_skip:
  "map snd pre = map Inr fps \<Longrightarrow> set fps \<inter> H = {} \<Longrightarrow>
   snd (for_id_mpf H (pre @ rest)) = snd (for_id_mpf H rest)"
proof (induction pre arbitrary: fps)
  case Nil
  then show ?case by simp
next
  case (Cons g pre)
  obtain evs item where g: "g = (evs, item)" by (cases g)
  from Cons.prems obtain f fps' where fps: "fps = f # fps'" by (cases fps) auto
  with Cons.prems g have item: "item = Inr f" and rest: "map snd pre = map Inr fps'"
    and nf: "f \<notin> H" and d: "set fps' \<inter> H = {}"
    by auto
  show ?case using Cons.IH[OF rest d] nf
    by (cases "for_id_mpf H (pre @ rest)") (simp add: g item)
qed

subsection \<open>Fingerprint normalisation\<close>

lemma replace_absent:
  assumes "old \<noteq> []" "hd old \<notin> set s"
  shows "replace s old new = s"
  using assms
proof (induction s)
  case Nil
  then show ?case by (simp add: replace.simps)
next
  case (Cons c cs)
  have "take (length old) (c # cs) \<noteq> old"
  proof
    assume "take (length old) (c # cs) = old"
    with Cons.prems(1) have "hd old = c" by (cases old) auto
    with Cons.prems(2) show False by simp
  qed
  with Cons show ?case by (subst replace.simps) simp
qed

lemma replace_prefix:
  "old \<noteq> [] \<Longrightarrow> replace (old @ s) old new = new @ replace s old new"
  by (subst replace.simps) simp

lemma replace_skip:
  assumes "old \<noteq> []" "hd old \<notin> set p"
  shows "replace (p @ s) old new = p @ replace s old new"
  using assms
proof (induction p)
  case Nil
  then show ?case by simp
next
  case (Cons c p)
  have "take (length old) (c # p @ s) \<noteq> old"
  proof
    assume "take (length old) (c # p @ s) = old"
    with Cons.prems(1) have "hd old = c" by (cases old) auto
    with Cons.prems(2) show False by simp
  qed
  with Cons show ?case by (subst replace.simps) simp
qed

lemma replace_join_colon:
  "list_all (\<lambda>p. CHR '':'' \<notin> set p) pairs \<Longrightarrow> replace (join_colon pairs) '':'' [] = concat pairs"
proof (induction pairs rule: join_colon.induct)
  case 1
  then show ?case by (simp add: replace.simps)
next
  case (2 p)
  then show ?case by (simp add: replace_absent)
next
  case (3 p q ps)
  have "replace (p @ '':'' @ join_colon (q # ps)) '':'' [] = p @ replace ('':'' @ join_colon (q # ps)) '':'' []"
    using 3(2) by (intro replace_skip) simp_all
  also have "replace ('':'' @ join_colon (q # ps)) '':'' [] = [] @ replace (join_colon (q # ps)) '':'' []"
    by (rule replace_prefix) simp
  finally show ?case using 3 by simp
qed

lemma strip_trailing:
  assumes "list_all is_space ws" "s \<noteq> []" "\<not> is_space (hd s)" "\<not> is_space (last s)"
  shows "strip (s @ ws) = s"
proof -
  have a: "dropWhile is_space (s @ ws) = s @ ws"
    using assms(2,3) by (cases s) auto
  have "dropWhile is_space (rev ws @ rev s) = dropWhile is_space (rev s)"
    using assms(1) by (intro dropWhile_append2) (simp add: list_all_iff)
  also have "\<dots> = rev s"
    using assms(2,4) by (cases "rev s") (auto simp: hd_rev dest: arg_cong[where f=hd])
  finally show ?thesis by (simp add: strip_def a)
qed

lemma utf8_wellformed_ascii: "\<forall>b\<in>set bs. b < 128 \<Longrightarrow> utf8_wellformed bs"
  by (induction bs) auto

lemma decode_utf8_ascii:
  "\<forall>c\<in>set s. of_char c < (128::nat) \<Longrightarrow> decode_utf8 s = Inr s"
  by (simp add: decode_utf8_def utf8_wellformed_ascii)

lemma set_join_colon: "set (join_colon pairs) \<subseteq> insert CHR '':'' (\<Union>(set ` set pairs))"
  by (induction pairs rule: join_colon.induct) auto

lemma hexdigit_facts:
  assumes "is_hexdigit c"
  shows "c \<noteq> CHR '':''" "c \<noteq> CHR ''S''" "\<not> is_space c" "of_char c < (128::nat)"
  using assms by (auto simp: is_hexdigit_def is_space_def)

text \<open>The sample host decodes its profile.\<close>

lemmas sample_defs = sample_world_def security_cms_def openssl_x509_def security_find_identity_def

lemma sample_parse:
  "snd (parse_mobileprovision_file (sample_world certs listing) (Some ''app.mobileprovision'')) =
   Inr (sample_profile certs)"
  by (simp add: parse_mobileprovision_file_def subprocess_check_output_def sample_defs)

lemma sample_certs: "sample_profile certs ''DeveloperCertificates'' = Some certs"
  by (simp add: sample_profile_def)

subsection \<open>The claims about the resolver\<close>

text \<open>
  Claim C1. Let the profile be decoded, let every embedded certificate have a fingerprint
  (the list \<open>fps\<close>, in the order of the profile), and let the identity listing give
  \<open>ids\<close>. If \<open>fps\<close> and \<open>ids\<close> have a common element, \<open>_find_codesign_identity\<close>
  returns the first element of \<open>fps\<close> that is in \<open>ids\<close>. A second host with the same
  fingerprints, whose listing gives the same identities in any other order (or number of
  repetitions), returns the same fingerprint.
\<close>

theorem find_codesign_identity_first_match:
  assumes "snd (parse_mobileprovision_file w (Some path)) = Inr m"
    and "m ''DeveloperCertificates'' = Some certs"
    and "list_all2 (\<lambda>c f. snd (certificate_fingerprint w c) = Inr f) certs fps"
    and "snd (find_codesign_identities w) = Inr ids"
    and "set fps \<inter> set ids \<noteq> {}"
    and "snd (parse_mobileprovision_file w' (Some path')) = Inr m'"
    and "m' ''DeveloperCertificates'' = Some certs'"
    and "list_all2 (\<lambda>c f. snd (certificate_fingerprint w' c) = Inr f) certs' fps"
    and "snd (find_codesign_identities w') = Inr ids'"
    and "set ids' = set ids"
  shows "snd (find_codesign_identity w (Some path)) =
           Inr (Some (hd (filter (\<lambda>f. f \<in> set ids) fps))) \<and>
         snd (find_codesign_identity w' (Some path')) =
           snd (find_codesign_identity w (Some path))"
proof -
  have ne: "filter (\<lambda>f. f \<in> set ids) fps \<noteq> []"
    using assms(5) by (auto simp: filter_empty_conv)
  have r: "snd (find_codesign_identity w (Some path)) = Inr (List.find (\<lambda>f. f \<in> set ids) fps)"
    by (rule find_codesign_identity_find[OF assms(1-4)])
  have r': "snd (find_codesign_identity w' (Some path')) = Inr (List.find (\<lambda>f. f \<in> set ids') fps)"
    by (rule find_codesign_identity_find[OF assms(6-9)])
  from r r' ne assms(10) show ?thesis
    by (simp add: find_hd_filter)
qed

theorem find_codesign_identity_first_match_witness:
  "snd (find_codesign_identity (sample_world [''certZ'', ''certX'', ''certY''] listing_XY)
         (Some ''app.mobileprovision'')) = Inr (Some fpX) \<and>
   snd (find_codesign_identity (sample_world [''certZ'', ''certX'', ''certY''] listing_YX)
         (Some ''app.mobileprovision'')) = Inr (Some fpX)"
proof -
  let ?certs = "[''certZ'', ''certX'', ''certY'']"
  let ?w = "sample_world ?certs listing_XY"
  let ?w' = "sample_world ?certs listing_YX"
  have f: "list_all2 (\<lambda>c f. snd (certificate_fingerprint ?w c) = Inr f) ?certs [fpZ, fpX, fpY]"
    by code_simp
  have f': "list_all2 (\<lambda>c f. snd (certificate_fingerprint ?w' c) = Inr f) ?certs [fpZ, fpX, fpY]"
    by code_simp
  have i: "snd (find_codesign_identities ?w) = Inr [fpX, fpY]"
    by code_simp
  have i': "snd (find_codesign_identities ?w') = Inr [fpY, fpX]"
    by code_simp
  have ne: "set [fpZ, fpX, fpY] \<inter> set [fpX, fpY] \<noteq> {}"
    by simp
  have eq: "set [fpY, fpX] = set [fpX, fpY]"
    by auto
  have hd: "hd (filter (\<lambda>f. f \<in> set [fpX, fpY]) [fpZ, fpX, fpY]) = fpX"
    by (simp add: fpX_def fpY_def fpZ_def)
  from find_codesign_identity_first_match
    [OF sample_parse sample_certs f i ne sample_parse sample_certs f' i' eq]
  show ?thesis by (simp only: hd)
qed

text \<open>
  Claim C7. The resolver returns at most one identity (an optional value), and the value
  is a function of the fingerprints of the profile in their order and of the identities of
  the store: two runs, on any two hosts and profile files, that agree on both return the same
  result, which is the first fingerprint of the profile that is in the store and \<open>None\<close>
  if there is none. No other ranking takes part.
\<close>

theorem find_codesign_identity_deterministic:
  assumes "snd (parse_mobileprovision_file w1 (Some path1)) = Inr m1"
    and "m1 ''DeveloperCertificates'' = Some certs1"
    and "list_all2 (\<lambda>c f. snd (certificate_fingerprint w1 c) = Inr f) certs1 fps"
    and "snd (find_codesign_identities w1) = Inr ids"
    and "snd (parse_mobileprovision_file w2 (Some path2)) = Inr m2"
    and "m2 ''DeveloperCertificates'' = Some certs2"
    and "list_all2 (\<lambda>c f. snd (certificate_fingerprint w2 c) = Inr f) certs2 fps"
    and "snd (find_codesign_identities w2) = Inr ids"
  shows "snd (find_codesign_identity w1 (Some path1)) = snd (find_codesign_identity w2 (Some path2)) \<and>
         snd (find_codesign_identity w1 (Some path1)) = Inr (List.find (\<lambda>f. f \<in> set ids) fps)"
  using find_codesign_identity_find[OF assms(1-4)] find_codesign_identity_find[OF assms(5-8)]
  by simp

theorem find_codesign_identity_deterministic_witness:
  "snd (find_codesign_identity (sample_world [''certX'', ''certY''] listing_Y)
         (Some ''app.mobileprovision'')) =
   snd (find_codesign_identity (sample_world [''certX'', ''certY''] listing_Y_bare)
         (Some ''app.mobileprovision'')) \<and>
   snd (find_codesign_identity (sample_world [''certX'', ''certY''] listing_Y)
         (Some ''app.mobileprovision'')) = Inr (Some fpY)"
proof -
  let ?certs = "[''certX'', ''certY'']"
  let ?w1 = "sample_world ?certs listing_Y"
  let ?w2 = "sample_world ?certs listing_Y_bare"
  have f1: "list_all2 (\<lambda>c f. snd (certificate_fingerprint ?w1 c) = Inr f) ?certs [fpX, fpY]"
    by code_simp
  have f2: "list_all2 (\<lambda>c f. snd (certificate_fingerprint ?w2 c) = Inr f) ?certs [fpX, fpY]"
    by code_simp
  have i1: "snd (find_codesign_identities ?w1) = Inr [fpY]"
    by code_simp
  have i2: "snd (find_codesign_identities ?w2) = Inr [fpY]"
    by code_simp
  have fnd: "List.find (\<lambda>f. f \<in> set [fpY]) [fpX, fpY] = Some fpY"
    by (simp add: fpX_def fpY_def)
  show ?thesis
    by (rule find_codesign_identity_deterministic
      [OF sample_parse sample_certs f1 i1 sample_parse sample_certs f2 i2, unfolded fnd])
qed

text \<open>
  The two ways of starting a process differ when the utility exits with a failure status:
  \<open>subprocess.check_output\<close>, which decodes the profile, raises, while
  \<open>_check_output\<close>, which runs the fingerprinting and the listing utilities, returns
  whatever was printed. Both raise when the process cannot be started, and the resolver
  catches nothing.
\<close>

lemma parse_mobileprovision_file_nonzero_exit:
  assumes "run w (security_cms path) None = Exited rc out" and "rc \<noteq> 0"
  shows "snd (parse_mobileprovision_file w (Some path)) = Inl (CalledProcessError rc)"
  using assms by (simp add: parse_mobileprovision_file_def subprocess_check_output_def)

lemma check_output_ignores_status:
  assumes "run w args inputstr = Exited rc out"
  shows "snd (check_output w args inputstr) = Inr out"
  using assms by (simp add: check_output_def)

lemma find_codesign_identity_not_started:
  assumes "snd (parse_mobileprovision_file w (Some path)) = Inr m"
    and "m ''DeveloperCertificates'' = Some (pre @ bad # post)"
    and "list_all2 (\<lambda>c f. snd (certificate_fingerprint w c) = Inr f) pre fps"
    and "snd (find_codesign_identities w) = Inr ids"
    and "set fps \<inter> set ids = {}"
    and "run w openssl_x509 (Some bad) = NotStarted"
  shows "snd (find_codesign_identity w (Some path)) = Inl OSError"
proof -
  let ?gen = "\<lambda>cs. map (certificate_fingerprint w) cs"
  have "snd (find_codesign_identity w (Some path)) =
        snd (for_id_mpf (set ids) (?gen pre @ certificate_fingerprint w bad # ?gen post))"
    using find_codesign_identity_loop[OF assms(1,2,4)] by simp
  also have "\<dots> = snd (for_id_mpf (set ids) (certificate_fingerprint w bad # ?gen post))"
    by (rule for_id_mpf_skip[OF fingerprints_of_generator[OF assms(3)] assms(5)])
  finally show ?thesis
    using assms(6) by (simp add: certificate_fingerprint_def check_output_def)
qed

text \<open>
  Claim C4. A failure of the fingerprinting utility on a certificate blob is to end the
  whole resolution with an error instead of letting the loop go on. The code does this when
  the utility cannot be started. It does not when the utility starts and rejects the blob:
  \<open>_check_output\<close> stands in for \<open>subprocess.check_output\<close> (it exists to pass the
  certificate on the standard input) and leaves out the test of the exit status that
  \<open>subprocess.check_output\<close> makes for the profile. In the run below the first blob of
  the profile is not a certificate: the utility exits with status 1 and prints nothing,
  no error is raised, the fingerprint is the empty string, the resolver goes on to the second
  certificate and returns its fingerprint, and \<open>main\<close> signs with it.
\<close>

theorem find_codesign_identity_invalid_der_skipped:
  "run (sample_world [''junk'', ''certY''] listing_Y) openssl_x509 (Some ''junk'') = Exited 1 [] \<and>
   snd (certificate_fingerprint (sample_world [''junk'', ''certY''] listing_Y) ''junk'') = Inr [] \<and>
   snd (find_codesign_identity (sample_world [''junk'', ''certY''] listing_Y)
         (Some ''app.mobileprovision'')) = Inr (Some fpY) \<and>
   snd (main (sample_world [''junk'', ''certY''] listing_Y) sample_args []) =
     Execve ''/usr/bin/codesign'' [''/usr/bin/codesign'', ''-v'', ''--sign'', fpY]
       [(''PATH'', ''/usr/bin'')]"
  by code_simp

subsection \<open>The claim about normalisation\<close>

text \<open>
  Claim C6. When the fingerprinting utility prints the line
  \<open>SHA1 Fingerprint=AA:BB:...:FF\<close> (groups of hexadecimal digits of either case, joined
  by colons, followed by white space such as the final newline), \<open>_certificate_fingerprint\<close>
  returns exactly the digits \<open>AABB...FF\<close>, in their case; and normalising that result
  again (removing the label, then the colons) leaves it unchanged.
\<close>

theorem certificate_fingerprint_normalized:
  assumes "run w openssl_x509 (Some blob) = Exited rc (''SHA1 Fingerprint='' @ join_colon pairs @ ws)"
    and "list_all (list_all is_hexdigit) pairs"
    and "list_all is_space ws"
  shows "snd (certificate_fingerprint w blob) = Inr (concat pairs) \<and>
         replace (replace (concat pairs) ''SHA1 Fingerprint='' '''') '':'' '''' = concat pairs"
proof -
  define line where "line = ''SHA1 Fingerprint='' @ join_colon pairs"
  have hex: "\<And>c. c \<in> \<Union>(set ` set pairs) \<Longrightarrow> is_hexdigit c"
    using assms(2) by (auto simp: list_all_iff)
  have body: "\<And>c. c \<in> set (join_colon pairs) \<Longrightarrow> c = CHR '':'' \<or> is_hexdigit c"
    using set_join_colon[of pairs] hex by blast
  have noS_body: "CHR ''S'' \<notin> set (join_colon pairs)"
    using body hexdigit_facts(2) by fastforce
  have noS: "CHR ''S'' \<notin> set (concat pairs)" and nocolon: "CHR '':'' \<notin> set (concat pairs)"
    using hex hexdigit_facts(1,2) by fastforce+
  have nocolon_pairs: "list_all (\<lambda>p. CHR '':'' \<notin> set p) pairs"
    using hex hexdigit_facts(1) by (fastforce simp: list_all_iff)
  have last_line: "\<not> is_space (last line)"
  proof (cases "join_colon pairs = []")
    case True
    then show ?thesis by (simp add: line_def is_space_def)
  next
    case False
    then have "last line \<in> set (join_colon pairs)" by (simp add: line_def)
    with body have "last line = CHR '':'' \<or> is_hexdigit (last line)" by blast
    then show ?thesis using hexdigit_facts(3) by (auto simp: is_space_def)
  qed
  have strip: "strip (line @ ws) = line"
    by (rule strip_trailing[OF assms(3) _ _ last_line]) (simp_all add: line_def is_space_def)
  have label_ascii: "\<forall>c\<in>set ''SHA1 Fingerprint=''. of_char c < (128::nat)"
    by simp
  have ascii: "\<forall>c\<in>set line. of_char c < (128::nat)"
  proof
    fix c assume "c \<in> set line"
    then have "c \<in> set ''SHA1 Fingerprint='' \<or> c \<in> set (join_colon pairs)"
      by (simp only: line_def set_append Un_iff)
    then show "of_char c < (128::nat)"
    proof
      assume "c \<in> set ''SHA1 Fingerprint=''"
      with label_ascii show ?thesis by blast
    next
      assume "c \<in> set (join_colon pairs)"
      with body have "c = CHR '':'' \<or> is_hexdigit c" by blast
      then show ?thesis
      proof
        assume "c = CHR '':''"
        then show ?thesis by simp
      next
        assume "is_hexdigit c"
        then show ?thesis by (rule hexdigit_facts(4))
      qed
    qed
  qed
  have "replace line ''SHA1 Fingerprint='' '''' = '''' @ replace (join_colon pairs) ''SHA1 Fingerprint='' ''''"
    unfolding line_def by (rule replace_prefix) simp
  also have "replace (join_colon pairs) ''SHA1 Fingerprint='' '''' = join_colon pairs"
    using noS_body by (intro replace_absent) simp_all
  finally have r1: "replace line ''SHA1 Fingerprint='' '''' = join_colon pairs" by simp
  have r2: "replace (join_colon pairs) '':'' '''' = concat pairs"
    by (rule replace_join_colon[OF nocolon_pairs])
  have "snd (certificate_fingerprint w blob) = Inr (concat pairs)"
    using assms(1) strip decode_utf8_ascii[OF ascii] r1 r2
    by (simp add: certificate_fingerprint_def check_output_def line_def)
  moreover have "replace (concat pairs) ''SHA1 Fingerprint='' '''' = concat pairs"
    using noS by (intro replace_absent) simp_all
  moreover have "replace (concat pairs) '':'' '''' = concat pairs"
    using nocolon by (intro replace_absent) simp_all
  ultimately show ?thesis by simp
qed

theorem certificate_fingerprint_normalized_witness:
  "snd (certificate_fingerprint (sample_world [] listing_none) ''certX'') = Inr fpX \<and>
   replace (replace fpX ''SHA1 Fingerprint='' '''') '':'' '''' = fpX"
proof -
  have r: "run (sample_world [] listing_none) openssl_x509 (Some ''certX'') =
           Exited 0 (''SHA1 Fingerprint='' @ join_colon pairs_X @ [CHR 0x0A])"
    by (simp add: sample_world_def sample_openssl_def pairs_X_def)
  have h: "list_all (list_all is_hexdigit) pairs_X"
    by code_simp
  have s: "list_all is_space [CHR 0x0A]"
    by (simp add: is_space_def)
  have c: "concat pairs_X = fpX"
    by (simp add: pairs_X_def fpX_def)
  from certificate_fingerprint_normalized [OF r h s] show ?thesis
    by (simp only: c)
qed

subsection \<open>The claims about main\<close>

text \<open>
  Claim C2, as stated, has the failure reported on the error channel. \<open>print\<close> writes to
  the standard output, and nothing in the program writes to the standard error. In the run
  below the profile embeds two certificates and the host has no identity: the resolver
  returns \<open>None\<close>, the exit status is 1, no signing is attempted, and the one line that
  is written goes to the standard output.
\<close>

theorem main_no_identity_stdout_counterexample:
  "identity sample_args = None \<and>
   snd (find_codesign_identity (sample_world [''certX'', ''certY''] listing_none)
         (Some ''app.mobileprovision'')) = Inr None \<and>
   main (sample_world [''certX'', ''certY''] listing_none) sample_args [''--force'', ''App.app''] =
     ([Popen [''security'', ''cms'', ''-D'', ''-i'', ''app.mobileprovision''],
       Popen [''security'', ''find-identity'', ''-v'', ''-p'', ''codesigning''],
       Popen [''openssl'', ''x509'', ''-inform'', ''DER'', ''-noout'', ''-fingerprint''],
       Popen [''openssl'', ''x509'', ''-inform'', ''DER'', ''-noout'', ''-fingerprint''],
       Write Stdout (''Unable to find identity on the system matching the ones in app.mobileprovision'' @ [CHR 0x0A])],
      Exit 1) \<and>
   Write Stderr (''Unable to find identity on the system matching the ones in app.mobileprovision'' @ [CHR 0x0A])
     \<notin> set (fst (main (sample_world [''certX'', ''certY''] listing_none) sample_args
                       [''--force'', ''App.app'']))"
  by code_simp

text \<open>
  Claim C2, amended. With no \<open>--identity\<close>, a profile that is decoded, certificates that
  all have fingerprints and an identity listing that shares no fingerprint with them:
  the resolver returns \<open>None\<close>; \<open>main\<close> prints one line that names the profile path on the
  standard output (not on the standard error), starts no process but the three utilities,
  never calls \<open>os.execve\<close>, and the exit status is 1.
\<close>

theorem main_no_identity_exit_1:
  assumes "identity args = None"
    and "mobileprovision args = Some path"
    and "snd (parse_mobileprovision_file w (Some path)) = Inr m"
    and "m ''DeveloperCertificates'' = Some certs"
    and "list_all2 (\<lambda>c f. snd (certificate_fingerprint w c) = Inr f) certs fps"
    and "snd (find_codesign_identities w) = Inr ids"
    and "set fps \<inter> set ids = {}"
  shows "snd (find_codesign_identity w (Some path)) = Inr None \<and>
         main w args codesign_args =
           (fst (find_codesign_identity w (Some path)) @
              [Write Stdout (''Unable to find identity on the system matching the ones in '' @
                             path @ [CHR 0x0A])],
            Exit 1) \<and>
         list_all is_utility_call (fst (find_codesign_identity w (Some path)))"
proof -
  have "filter (\<lambda>f. f \<in> set ids) fps = []"
    using assms(7) by (auto simp: filter_empty_conv)
  then have r: "snd (find_codesign_identity w (Some path)) = Inr None"
    using find_codesign_identity_find[OF assms(3-6)] by (simp add: find_hd_filter)
  then have "main w args codesign_args =
           (fst (find_codesign_identity w (Some path)) @
              [Write Stdout (''Unable to find identity on the system matching the ones in '' @
                             path @ [CHR 0x0A])],
            Exit 1)"
    using assms(1,2) by (cases "find_codesign_identity w (Some path)") (simp add: main_def percent_s_def)
  with r find_codesign_identity_events[of w path] show ?thesis by simp
qed

theorem main_no_identity_exit_1_witness:
  "snd (find_codesign_identity (sample_world [''certX'', ''certY''] listing_none)
         (Some ''app.mobileprovision'')) = Inr None \<and>
   main (sample_world [''certX'', ''certY''] listing_none) sample_args [''--force'', ''App.app''] =
     (fst (find_codesign_identity (sample_world [''certX'', ''certY''] listing_none)
            (Some ''app.mobileprovision'')) @
        [Write Stdout (''Unable to find identity on the system matching the ones in '' @
                       ''app.mobileprovision'' @ [CHR 0x0A])],
      Exit 1) \<and>
   list_all is_utility_call
     (fst (find_codesign_identity (sample_world [''certX'', ''certY''] listing_none)
            (Some ''app.mobileprovision'')))"
proof -
  let ?certs = "[''certX'', ''certY'']"
  let ?w = "sample_world ?certs listing_none"
  have a: "identity sample_args = None" "mobileprovision sample_args = Some ''app.mobileprovision''"
    by (simp_all add: sample_args_def)
  have f: "list_all2 (\<lambda>c f. snd (certificate_fingerprint ?w c) = Inr f) ?certs [fpX, fpY]"
    by code_simp
  have i: "snd (find_codesign_identities ?w) = Inr []"
    by code_simp
  have e: "set [fpX, fpY] \<inter> set [] = {}"
    by simp
  show ?thesis
    by (rule main_no_identity_exit_1 [OF a sample_parse sample_certs f i e])
qed

text \<open>
  Claim C3. When \<open>--identity\<close> is given (and \<open>--codesign\<close> names the signing binary),
  \<open>main\<close> starts no process at all, so the profile is never decoded and no certificate
  is fingerprinted, whatever the host would answer; it calls \<open>os.execve\<close> with the given
  value, unchanged, as the argument after \<open>--sign\<close>.
\<close>

theorem main_identity_override:
  assumes "identity args = Some i" and "codesign args = Some p"
  shows "main w args codesign_args =
           ([], Execve p ([p, ''-v'', ''--sign'', i] @ codesign_args) (environ w))"
  using assms by (simp add: main_def)

theorem main_identity_override_witness:
  "main (sample_world [''certX''] listing_none)
     (sample_args\<lparr>identity := Some ''iPhone Developer: Z''\<rparr>) [''--force'', ''App.app''] =
   ([], Execve ''/usr/bin/codesign''
          [''/usr/bin/codesign'', ''-v'', ''--sign'', ''iPhone Developer: Z'', ''--force'', ''App.app'']
          [(''PATH'', ''/usr/bin'')])"
proof -
  have a: "identity (sample_args\<lparr>identity := Some ''iPhone Developer: Z''\<rparr>) = Some ''iPhone Developer: Z''"
    "codesign (sample_args\<lparr>identity := Some ''iPhone Developer: Z''\<rparr>) = Some ''/usr/bin/codesign''"
    by (simp_all add: sample_args_def)
  from main_identity_override [OF a, of "sample_world [''certX''] listing_none" "[''--force'', ''App.app'']"]
  show ?thesis by (simp add: sample_world_def)
qed

text \<open>
  Claim C8. Whenever \<open>main\<close> ends by calling \<open>os.execve\<close>, the path is the value of
  \<open>--codesign\<close>, the environment is that of the wrapper, and the argument vector is the
  path, \<open>-v\<close>, \<open>--sign\<close>, the identity (the override, or else what the resolver
  returned) and then the unrecognised arguments, in their order and unchanged.
\<close>

theorem main_execve_argv:
  assumes "snd (main w args codesign_args) = Execve p argv env"
  shows "codesign args = Some p \<and> env = environ w \<and>
         (\<exists>ident. argv = [p, ''-v'', ''--sign'', ident] @ codesign_args \<and>
            (identity args = Some ident \<or>
             identity args = None \<and>
             snd (find_codesign_identity w (mobileprovision args)) = Inr (Some ident)))"
  using assms
  by (auto simp: main_def split: option.splits prod.splits sum.splits)

theorem main_execve_argv_witness:
  "snd (main (sample_world [''certX'', ''certY''] listing_Y) sample_args [''--force'', ''App.app'']) =
     Execve ''/usr/bin/codesign''
       [''/usr/bin/codesign'', ''-v'', ''--sign'', fpY, ''--force'', ''App.app'']
       [(''PATH'', ''/usr/bin'')] \<and>
   codesign sample_args = Some ''/usr/bin/codesign'' \<and>
   [(''PATH'', ''/usr/bin'')] = environ (sample_world [''certX'', ''certY''] listing_Y) \<and>
   (\<exists>ident.
      [''/usr/bin/codesign'', ''-v'', ''--sign'', fpY, ''--force'', ''App.app''] =
        [''/usr/bin/codesign'', ''-v'', ''--sign'', ident] @ [''--force'', ''App.app''] \<and>
      (identity sample_args = Some ident \<or>
       identity sample_args = None \<and>
       snd (find_codesign_identity (sample_world [''certX'', ''certY''] listing_Y)
              (mobileprovision sample_args)) = Inr (Some ident)))"
proof -
  have h: "snd (main (sample_world [''certX'', ''certY''] listing_Y) sample_args [''--force'', ''App.app'']) =
     Execve ''/usr/bin/codesign''
       [''/usr/bin/codesign'', ''-v'', ''--sign'', fpY, ''--force'', ''App.app'']
       [(''PATH'', ''/usr/bin'')]"
    by code_simp
  from main_execve_argv [OF h] show ?thesis
    using h by blast
qed

text \<open>
  Claim C9. An \<open>--identity\<close> that is the empty string is an identity that was given: it
  is not \<open>None\<close>. \<open>main\<close> starts no process, does not exit with status 1, and calls
  \<open>os.execve\<close> with an empty argument after \<open>--sign\<close>.
\<close>

theorem main_empty_identity:
  assumes "identity args = Some []" and "codesign args = Some p"
  shows "fst (main w args codesign_args) = [] \<and>
         snd (main w args codesign_args) =
           Execve p ([p, ''-v'', ''--sign'', []] @ codesign_args) (environ w) \<and>
         snd (main w args codesign_args) \<noteq> Exit 1"
  using assms by (simp add: main_def)

theorem main_empty_identity_witness:
  "fst (main (sample_world [''certX'', ''certY''] listing_Y)
          (sample_args\<lparr>identity := Some []\<rparr>) [''--force'', ''App.app'']) = [] \<and>
   snd (main (sample_world [''certX'', ''certY''] listing_Y)
          (sample_args\<lparr>identity := Some []\<rparr>) [''--force'', ''App.app'']) =
     Execve ''/usr/bin/codesign''
       [''/usr/bin/codesign'', ''-v'', ''--sign'', [], ''--force'', ''App.app'']
       [(''PATH'', ''/usr/bin'')]"
proof -
  have a: "identity (sample_args\<lparr>identity := Some []\<rparr>) = Some []"
    "codesign (sample_args\<lparr>identity := Some []\<rparr>) = Some ''/usr/bin/codesign''"
    by (simp_all add: sample_args_def)
  from main_empty_identity [OF a, of "sample_world [''certX'', ''certY''] listing_Y" "[''--force'', ''App.app'']"]
  show ?thesis by (simp add: sample_world_def)
qed

end
